theory Spec2Isabelle
  imports Complex_Main
begin

section \<open>Values, errors and console output\<close>

text \<open>
  The module \<^verbatim>\<open>vizbeauty/common.py\<close> holds five functions that wrap calls into pandas,
  numpy, scipy, seaborn and matplotlib. The five functions are translated statement by
  statement. The libraries are not part of the repository: the library calls the
  properties depend on are modelled from the libraries' documented behaviour (each such
  definition says so), and the remaining ones are parameters.

  A Python exception is a value of \<open>py_error\<close>; a call that may raise returns
  \<open>py_error + 'a\<close> with \<open>Inl\<close> for the exception.
\<close>

datatype py_error = TypeError | ValueError | KeyError | IndexError

text \<open>
  One entry of a pandas Series or DataFrame column: a number, a missing value (NaN), or
  an entry that is not numeric (a string). Floating-point numbers are exact reals here.
\<close>

datatype cell = is_Num: Num real | is_NaN: NaN | is_Str: Str string

text \<open>Python's \<^verbatim>\<open>round(x, d)\<close> on exact reals: the nearest multiple of \<open>10 ^ -d\<close>, a tie
  going to the even one. NaN stays NaN, a string has no \<^verbatim>\<open>__round__\<close>.\<close>

definition round_half_even :: "real \<Rightarrow> int" where
  "round_half_even x =
     (let n = \<lfloor>x\<rfloor>; f = x - of_int n
      in if f < 1/2 then n else if 1/2 < f then n + 1 else if even n then n else n + 1)"

definition round_real :: "real \<Rightarrow> nat \<Rightarrow> real" where
  "round_real x d = of_int (round_half_even (x * 10 ^ d)) / 10 ^ d"

fun py_round :: "cell \<Rightarrow> nat \<Rightarrow> py_error + cell" where
  "py_round (Num v) d = Inr (Num (round_real v d))"
| "py_round NaN d = Inr NaN"
| "py_round (Str s) d = Inl TypeError"

text \<open>\<^verbatim>\<open>value + 0.2\<close> and \<^verbatim>\<open>p_value < alpha\<close> with a float on the right: NaN plus anything
  is NaN, every comparison with NaN is false, a string on the left raises.\<close>

fun py_add :: "cell \<Rightarrow> real \<Rightarrow> py_error + cell" where
  "py_add (Num v) d = Inr (Num (v + d))"
| "py_add NaN d = Inr NaN"
| "py_add (Str s) d = Inl TypeError"

fun py_less :: "cell \<Rightarrow> real \<Rightarrow> py_error + bool" where
  "py_less (Num v) a = Inr (v < a)"
| "py_less NaN a = Inr False"
| "py_less (Str s) a = Inl TypeError"

text \<open>
  A printed line and a text label are lists of pieces: literal characters, a formatted
  value, a formatted integer count. Which characters Python's float formatting produces
  is not modelled, so a formatted value stays the value.
\<close>

datatype piece = Lit string | Val cell | Cnt nat

type_synonym line = "piece list"

text \<open>
  A sequence of \<^verbatim>\<open>print\<close> statements, each given as the line it prints or the exception
  the evaluation of its argument raises. The statements run in order; the first
  exception ends the run, and the lines printed before it stay on the console. The
  result is the console output and the exception that left the function, if any.
\<close>

fun print_all :: "(py_error + line) list \<Rightarrow> line list \<times> py_error option" where
  "print_all [] = ([], None)"
| "print_all (Inl e # rest) = ([], Some e)"
| "print_all (Inr l # rest) = (l # fst (print_all rest), snd (print_all rest))"

section \<open>pandas and numpy: the statistics of a Series\<close>

text \<open>The numeric entries of a column, in order: what \<^verbatim>\<open>skipna=True\<close> leaves.\<close>

fun dropna :: "cell list \<Rightarrow> real list" where
  "dropna [] = []"
| "dropna (Num v # cs) = v # dropna cs"
| "dropna (c # cs) = dropna cs"

text \<open>\<^verbatim>\<open>variable.isnull().sum()\<close>: the number of missing entries.\<close>

definition isnull_sum :: "cell list \<Rightarrow> nat" where
  "isnull_sum cs = length (filter is_NaN cs)"

text \<open>
  Modelled from the pandas documentation (the library is not in the repository):
  \<^verbatim>\<open>Series.mean()\<close>, \<^verbatim>\<open>median()\<close>, \<^verbatim>\<open>min()\<close> and \<^verbatim>\<open>max()\<close> skip missing entries
  (\<^verbatim>\<open>skipna=True\<close> is the default), give NaN when no entry is left, and raise TypeError on
  entries that are not numbers. (For \<^verbatim>\<open>min\<close> and \<^verbatim>\<open>max\<close> pandas raises on mixed entries
  and returns the least string of a Series of strings, which \<^verbatim>\<open>round\<close> then rejects with
  the same TypeError; the model raises in both cases.)
\<close>

definition skipna_stat :: "(real list \<Rightarrow> real) \<Rightarrow> cell list \<Rightarrow> py_error + cell" where
  "skipna_stat f cs =
     (if list_ex is_Str cs then Inl TypeError
      else if dropna cs = [] then Inr NaN
      else Inr (Num (f (dropna cs))))"

definition mean_of :: "real list \<Rightarrow> real" where
  "mean_of vs = sum_list vs / real (length vs)"

definition median_of :: "real list \<Rightarrow> real" where
  "median_of vs =
     (let s = sort vs; n = length s
      in if odd n then s ! (n div 2) else (s ! (n div 2 - 1) + s ! (n div 2)) / 2)"

definition pd_mean :: "cell list \<Rightarrow> py_error + cell" where
  "pd_mean = skipna_stat mean_of"

definition pd_median :: "cell list \<Rightarrow> py_error + cell" where
  "pd_median = skipna_stat median_of"

definition pd_min :: "cell list \<Rightarrow> py_error + cell" where
  "pd_min = skipna_stat (\<lambda>vs. fold min (tl vs) (hd vs))"

definition pd_max :: "cell list \<Rightarrow> py_error + cell" where
  "pd_max = skipna_stat (\<lambda>vs. fold max (tl vs) (hd vs))"

text \<open>
  Modelled from the numpy documentation (the library is not in the repository):
  \<^verbatim>\<open>np.percentile(a, q)\<close> with the default method, linear interpolation between the two
  closest ranks of the sorted data. It does not skip missing entries: when the data holds
  a NaN the result is NaN (\<^verbatim>\<open>np.nanpercentile\<close> is the variant that skips them). A \<open>q\<close>
  outside 0..100 is a ValueError, entries that are not numbers a TypeError, and an empty
  array an IndexError.
\<close>

definition linear_percentile :: "real list \<Rightarrow> real \<Rightarrow> real" where
  "linear_percentile s q =
     (let h = (real (length s) - 1) * q / 100;
          lo = nat \<lfloor>h\<rfloor>;
          hi = min (lo + 1) (length s - 1)
      in s ! lo + (h - real lo) * (s ! hi - s ! lo))"

definition np_percentile :: "cell list \<Rightarrow> real \<Rightarrow> py_error + cell" where
  "np_percentile cs q =
     (if q < 0 \<or> 100 < q then Inl ValueError
      else if list_ex is_Str cs then Inl TypeError
      else if cs = [] then Inl IndexError
      else if list_ex is_NaN cs then Inr NaN
      else Inr (Num (linear_percentile (sort (dropna cs)) q)))"

text \<open>
  The three statistics the model takes as given: \<^verbatim>\<open>Series.std()\<close>, \<^verbatim>\<open>Series.skew()\<close> and
  \<^verbatim>\<open>Series.kurtosis()\<close>, each a function from the column to its result or exception.
\<close>

record moments =
  series_std :: "cell list \<Rightarrow> py_error + cell"
  series_skew :: "cell list \<Rightarrow> py_error + cell"
  series_kurtosis :: "cell list \<Rightarrow> py_error + cell"

section \<open>print_statistic\<close>

text \<open>One report line \<^verbatim>\<open>print(f"<label>{round(<statistic>, 2)}")\<close>: the statistic is
  computed, then rounded, then formatted; an exception of either call leaves the
  statement before anything is printed.\<close>

definition stat_line :: "string \<Rightarrow> py_error + cell \<Rightarrow> py_error + line" where
  "stat_line label r =
     (case r of
        Inl e \<Rightarrow> Inl e
      | Inr v \<Rightarrow> (case py_round v 2 of Inl e \<Rightarrow> Inl e | Inr w \<Rightarrow> Inr [Lit label, Val w]))"

definition banner :: line where
  "banner = [Lit ''++++++++++++++++++++++++++++++++++++++++++++++++++++++'']"

definition print_statistic :: "moments \<Rightarrow> string \<Rightarrow> cell list \<Rightarrow> line list \<times> py_error option" where
  "print_statistic lib title variable = print_all
     [Inr [Lit (''Statistics for '' @ title @ '':'')],
      Inr banner,
      stat_line ''Mean: '' (pd_mean variable),
      stat_line ''Median: '' (pd_median variable),
      stat_line ''Standard Deviation: '' (series_std lib variable),
      stat_line ''Minimum: '' (pd_min variable),
      stat_line ''Maximum: '' (pd_max variable),
      stat_line ''25th Percentile (Q1): '' (np_percentile variable 25),
      stat_line ''75th Percentile (Q3): '' (np_percentile variable 75),
      stat_line ''Skewness: '' (series_skew lib variable),
      stat_line ''Kurtosis: '' (series_kurtosis lib variable),
      Inr [Lit ''Count of Missing Values: '', Cnt (isnull_sum variable)],
      Inr banner,
      Inr []]"

section \<open>pearson_correlation\<close>

text \<open>A pandas Series as \<^verbatim>\<open>pearson_correlation\<close> uses it: its \<^verbatim>\<open>name\<close> attribute (None when
  the Series has no name; an f-string formats that as \<^verbatim>\<open>None\<close>) and its entries.\<close>

record series =
  name :: "string option"
  entries :: "cell list"

definition fmt_name :: "string option \<Rightarrow> string" where
  "fmt_name n = (case n of None \<Rightarrow> ''None'' | Some s \<Rightarrow> s)"

definition significant_msg :: "series \<Rightarrow> series \<Rightarrow> line" where
  "significant_msg x y =
     [Lit (''There is a statistically significant correlation between '' @ fmt_name (name x)
            @ '' and '' @ fmt_name (name y) @ ''.'')]"

definition not_significant_msg :: "series \<Rightarrow> series \<Rightarrow> line" where
  "not_significant_msg x y =
     [Lit (''There is no statistically significant correlation between '' @ fmt_name (name x)
            @ '' and '' @ fmt_name (name y) @ ''.'')]"

text \<open>
  \<^verbatim>\<open>scipy.stats.pearsonr\<close> is a parameter: a function from the two columns to the pair
  (coefficient, p-value) or to the exception it raises. \<^verbatim>\<open>print(a, b)\<close> separates its
  arguments by one space.
\<close>

definition pearson_correlation ::
  "(cell list \<Rightarrow> cell list \<Rightarrow> py_error + cell \<times> cell) \<Rightarrow> series \<Rightarrow> series
     \<Rightarrow> line list \<times> py_error option" where
  "pearson_correlation pearsonr x y =
     (case pearsonr (entries x) (entries y) of
        Inl e \<Rightarrow> ([], Some e)
      | Inr (correlation_coefficient, p_value) \<Rightarrow>
          (let alpha = 5 / 100 in
           print_all
             [Inr [Lit ''Pearson Correlation Coefficient: '', Val correlation_coefficient],
              Inr [Lit ''P-value: '', Val p_value],
              (case py_less p_value alpha of
                 Inl e \<Rightarrow> Inl e
               | Inr True \<Rightarrow> Inr (significant_msg x y)
               | Inr False \<Rightarrow> Inr (not_significant_msg x y))]))"

section \<open>matplotlib: figures, axes and the pyplot state\<close>

text \<open>
  Modelled from the matplotlib and seaborn documentation (the libraries are not in the
  repository). What an axes shows is the list of artists added to it, in drawing order.
  Only what the five functions pass to the libraries is recorded; the error bars seaborn
  adds to a bar plot and the legends are left out.
\<close>

datatype fit_method = OLS | Polynomial nat | Logistic | Lowess | Robust | LogX

datatype artist =
    is_Bar: Bar nat cell string
      \<comment> \<open>position on the category axis (0, 1, ...), height, fill colour\<close>
  | is_Text: Text real cell line string string string
      \<comment> \<open>x, y, label, horizontal alignment, vertical alignment, colour\<close>
  | is_HLine: HLine cell string string
      \<comment> \<open>a horizontal line across the axes: height, colour, line style\<close>
  | is_Scatter: Scatter "(real \<times> real) list" string
      \<comment> \<open>\<^verbatim>\<open>plt.scatter\<close>: the points in order, the marker\<close>
  | is_SnsScatter: SnsScatter "(cell \<times> cell) list" "string option" "string option" "(real \<times> real) option" string
      \<comment> \<open>\<^verbatim>\<open>sns.scatterplot\<close>: the points, hue, size, sizes, legend\<close>
  | is_RegMarkers: RegMarkers "(cell \<times> cell) list"
      \<comment> \<open>the scatter markers \<^verbatim>\<open>sns.regplot\<close> draws itself\<close>
  | is_FitLine: FitLine fit_method "(real \<times> real) list" "string option"
      \<comment> \<open>the regression line: how it is fitted, the points it is fitted to, its colour\<close>
  | is_Band: Band nat "(real \<times> real) list"
      \<comment> \<open>the confidence band around a regression line: its level in percent\<close>

record axes =
  owner :: nat
  artists :: "artist list"
  ax_title :: string
  xlabel :: string
  ylabel :: string
  xtick_style :: "(real \<times> string) option"
  grid :: "(string \<times> string) option"

record figure =
  figsize :: "real \<times> real"
  layout_fits :: nat
  shown :: bool

text \<open>
  The state of the plotting library: every figure alive (a figure is known by its
  position in \<open>figures\<close>), every axes alive (known by its position in \<open>all_axes\<close>; \<open>owner\<close>
  is its figure), and pyplot's global registry \<open>active\<close>: the figures pyplot manages, the
  current one last. A figure's current axes is the one it received last (pyplot can
  activate another one with \<^verbatim>\<open>sca\<close>, which no function of the module calls).
\<close>

record pyplot =
  figures :: "figure list"
  all_axes :: "axes list"
  active :: "nat list"

definition default_figsize :: "real \<times> real" where
  "default_figsize = (64 / 10, 48 / 10)"

definition new_figure :: "real \<times> real \<Rightarrow> figure" where
  "new_figure sz = \<lparr>figsize = sz, layout_fits = 0, shown = False\<rparr>"

definition new_axes :: "nat \<Rightarrow> axes" where
  "new_axes f = \<lparr>owner = f, artists = [], ax_title = [], xlabel = [], ylabel = [],
                 xtick_style = None, grid = None\<rparr>"

text \<open>\<^verbatim>\<open>plt.figure(figsize=...)\<close>: a new figure, registered with pyplot and made current.\<close>

definition plt_figure :: "real \<times> real \<Rightarrow> pyplot \<Rightarrow> pyplot" where
  "plt_figure sz st =
     st\<lparr>figures := figures st @ [new_figure sz], active := active st @ [length (figures st)]\<rparr>"

text \<open>\<^verbatim>\<open>plt.gcf()\<close>: the current figure; when pyplot manages none, a new one is created.\<close>

definition plt_gcf :: "pyplot \<Rightarrow> nat \<times> pyplot" where
  "plt_gcf st =
     (if active st = [] then (length (figures st), plt_figure default_figsize st)
      else (last (active st), st))"

definition axes_in :: "pyplot \<Rightarrow> nat \<Rightarrow> nat list" where
  "axes_in st f = filter (\<lambda>i. owner (all_axes st ! i) = f) [0..<length (all_axes st)]"

text \<open>\<^verbatim>\<open>plt.gca()\<close>: the current axes of the current figure; a figure without axes
  receives one.\<close>

definition plt_gca :: "pyplot \<Rightarrow> nat \<times> pyplot" where
  "plt_gca st =
     (let (f, st1) = plt_gcf st
      in if axes_in st1 f = []
         then (length (all_axes st1), st1\<lparr>all_axes := all_axes st1 @ [new_axes f]\<rparr>)
         else (last (axes_in st1 f), st1))"

definition on_axes :: "nat \<Rightarrow> (axes \<Rightarrow> axes) \<Rightarrow> pyplot \<Rightarrow> pyplot" where
  "on_axes a f st = st\<lparr>all_axes := (all_axes st)[a := f (all_axes st ! a)]\<rparr>"

definition add_artists :: "nat \<Rightarrow> artist list \<Rightarrow> pyplot \<Rightarrow> pyplot" where
  "add_artists a arts = on_axes a (\<lambda>ax. ax\<lparr>artists := artists ax @ arts\<rparr>)"

text \<open>The methods of an axes the module calls. \<^verbatim>\<open>ax.text\<close> defaults: left, baseline,
  black.\<close>

definition ax_text :: "nat \<Rightarrow> real \<Rightarrow> cell \<Rightarrow> line \<Rightarrow> string \<Rightarrow> string \<Rightarrow> string \<Rightarrow> pyplot \<Rightarrow> pyplot" where
  "ax_text a xpos ypos label ha va color = add_artists a [Text xpos ypos label ha va color]"

definition ax_axhline :: "nat \<Rightarrow> cell \<Rightarrow> string \<Rightarrow> string \<Rightarrow> pyplot \<Rightarrow> pyplot" where
  "ax_axhline a ypos color linestyle = add_artists a [HLine ypos color linestyle]"

definition ax_set_xlabel :: "nat \<Rightarrow> string \<Rightarrow> pyplot \<Rightarrow> pyplot" where
  "ax_set_xlabel a s = on_axes a (\<lambda>ax. ax\<lparr>xlabel := s\<rparr>)"

definition ax_set_ylabel :: "nat \<Rightarrow> string \<Rightarrow> pyplot \<Rightarrow> pyplot" where
  "ax_set_ylabel a s = on_axes a (\<lambda>ax. ax\<lparr>ylabel := s\<rparr>)"

definition ax_set_title :: "nat \<Rightarrow> string \<Rightarrow> pyplot \<Rightarrow> pyplot" where
  "ax_set_title a s = on_axes a (\<lambda>ax. ax\<lparr>ax_title := s\<rparr>)"

definition ax_set_xticklabels :: "nat \<Rightarrow> real \<Rightarrow> string \<Rightarrow> pyplot \<Rightarrow> pyplot" where
  "ax_set_xticklabels a rotation ha = on_axes a (\<lambda>ax. ax\<lparr>xtick_style := Some (rotation, ha)\<rparr>)"

definition ax_grid :: "nat \<Rightarrow> string \<Rightarrow> string \<Rightarrow> pyplot \<Rightarrow> pyplot" where
  "ax_grid a which linestyle = on_axes a (\<lambda>ax. ax\<lparr>grid := Some (which, linestyle)\<rparr>)"

text \<open>\<^verbatim>\<open>plt.tight_layout()\<close> is \<^verbatim>\<open>plt.gcf().tight_layout()\<close>: the layout pass runs on
  pyplot's current figure.\<close>

definition plt_tight_layout :: "pyplot \<Rightarrow> pyplot" where
  "plt_tight_layout st =
     (let (f, st1) = plt_gcf st
      in st1\<lparr>figures := (figures st1)
               [f := (figures st1 ! f)\<lparr>layout_fits := Suc (layout_fits (figures st1 ! f))\<rparr>]\<rparr>)"

text \<open>The pyplot functions \<^verbatim>\<open>visualize_hyperparameter\<close> calls; each works on
  \<^verbatim>\<open>plt.gca()\<close>. \<^verbatim>\<open>plt.scatter\<close> refuses sequences of different lengths. \<^verbatim>\<open>plt.show()\<close>
  displays every figure pyplot manages.\<close>

definition plt_scatter :: "real list \<Rightarrow> real list \<Rightarrow> string \<Rightarrow> pyplot \<Rightarrow> py_error + pyplot" where
  "plt_scatter xs ys marker st =
     (let (a, st1) = plt_gca st
      in if length xs \<noteq> length ys then Inl ValueError
         else Inr (add_artists a [Scatter (zip xs ys) marker] st1))"

definition plt_title :: "string \<Rightarrow> pyplot \<Rightarrow> pyplot" where
  "plt_title s st = (let (a, st1) = plt_gca st in ax_set_title a s st1)"

definition plt_xlabel :: "string \<Rightarrow> pyplot \<Rightarrow> pyplot" where
  "plt_xlabel s st = (let (a, st1) = plt_gca st in ax_set_xlabel a s st1)"

definition plt_ylabel :: "string \<Rightarrow> pyplot \<Rightarrow> pyplot" where
  "plt_ylabel s st = (let (a, st1) = plt_gca st in ax_set_ylabel a s st1)"

definition plt_grid :: "pyplot \<Rightarrow> pyplot" where
  "plt_grid st = (let (a, st1) = plt_gca st in ax_grid a ''both'' ''-'' st1)"

definition plt_show :: "pyplot \<Rightarrow> pyplot" where
  "plt_show st =
     st\<lparr>figures := map (\<lambda>i. if i \<in> set (active st) then (figures st ! i)\<lparr>shown := True\<rparr>
                              else figures st ! i) [0..<length (figures st)]\<rparr>"

section \<open>Data frames and seaborn\<close>

text \<open>A DataFrame: its columns by name, all of the same length.\<close>

type_synonym frame = "(string \<times> cell list) list"

definition column :: "frame \<Rightarrow> string \<Rightarrow> cell list option" where
  "column data c = map_of data c"

text \<open>An optional \<^verbatim>\<open>ax\<close> argument: the axes given, else \<^verbatim>\<open>plt.gca()\<close>.\<close>

definition target_axes :: "nat option \<Rightarrow> pyplot \<Rightarrow> nat \<times> pyplot" where
  "target_axes ax st = (case ax of None \<Rightarrow> plt_gca st | Some a \<Rightarrow> (a, st))"

text \<open>
  Modelled from the seaborn documentation: the categories of a bar plot are the distinct
  non-missing values of the \<open>x\<close> column, in order of first appearance, or in ascending
  order when they are all numbers. Bar \<open>i\<close> stands at position \<open>i\<close> of the category axis;
  its height is the mean (the default estimator) of the non-missing \<open>y\<close> values of the
  rows of category \<open>i\<close>. A category whose \<open>y\<close> values are all missing keeps its position
  and gets no bar. A column that is missing is a ValueError, and so is a \<open>y\<close> column
  holding an entry that is not a number. The axis labels are set to the column names.
\<close>

fun unique :: "'a list \<Rightarrow> 'a list" where
  "unique [] = []"
| "unique (x # xs) = x # unique (filter (\<lambda>y. y \<noteq> x) xs)"

definition categorical_order :: "cell list \<Rightarrow> cell list" where
  "categorical_order xcol =
     (let present = filter (\<lambda>c. \<not> is_NaN c) (unique xcol)
      in if list_all is_Num present then map Num (sort (dropna present)) else present)"

definition category_mean :: "cell list \<Rightarrow> cell list \<Rightarrow> cell \<Rightarrow> cell" where
  "category_mean xcol ycol c =
     (let vs = dropna (map snd (filter (\<lambda>row. fst row = c) (zip xcol ycol)))
      in if vs = [] then NaN else Num (mean_of vs))"

definition bars_of :: "cell list \<Rightarrow> cell list \<Rightarrow> string \<Rightarrow> artist list" where
  "bars_of xcol ycol color =
     (let cats = categorical_order xcol
      in map (\<lambda>i. Bar i (category_mean xcol ycol (cats ! i)) color)
           (filter (\<lambda>i. \<not> is_NaN (category_mean xcol ycol (cats ! i))) [0..<length cats]))"

definition sns_barplot :: "string \<Rightarrow> string \<Rightarrow> frame \<Rightarrow> string \<Rightarrow> nat \<Rightarrow> pyplot \<Rightarrow> py_error + pyplot" where
  "sns_barplot x y data color ax st =
     (case column data x of
        None \<Rightarrow> Inl ValueError
      | Some xcol \<Rightarrow>
          (case column data y of
             None \<Rightarrow> Inl ValueError
           | Some ycol \<Rightarrow>
               if list_ex is_Str ycol then Inl ValueError
               else Inr (ax_set_ylabel ax y (ax_set_xlabel ax x
                      (add_artists ax (bars_of xcol ycol color) st)))))"













section \<open>beautybar\<close>

text \<open>The labelling loop
  \<^verbatim>\<open>for index, value in enumerate(data[y]): ax.text(index, value + 0.2, str(round(value, 2)), ha='center', va='bottom')\<close>:
  one label per row of the \<open>y\<close> column, at the row's index.\<close>

fun label_rows :: "nat \<Rightarrow> nat \<Rightarrow> cell list \<Rightarrow> pyplot \<Rightarrow> py_error + pyplot" where
  "label_rows ax index [] st = Inr st"
| "label_rows ax index (v # rest) st =
     (case py_add v (2 / 10) of
        Inl e \<Rightarrow> Inl e
      | Inr ypos \<Rightarrow>
          (case py_round v 2 of
             Inl e \<Rightarrow> Inl e
           | Inr r \<Rightarrow>
               label_rows ax (Suc index) rest
                 (ax_text ax (real index) ypos [Val r] ''center'' ''bottom'' ''black'' st)))"

text \<open>The statements after the loop, from \<^verbatim>\<open>ax.axhline\<close> to \<^verbatim>\<open>plt.tight_layout()\<close>, for the
  average \<open>avg_variable\<close> already computed.\<close>

definition finish_bars :: "string \<Rightarrow> string \<Rightarrow> nat \<Rightarrow> cell \<Rightarrow> pyplot \<Rightarrow> py_error + pyplot" where
  "finish_bars x y ax avg_variable st =
     (let st1 = ax_axhline ax avg_variable ''r'' ''--'' st
      in case py_add avg_variable (2 / 10) of
           Inl e \<Rightarrow> Inl e
         | Inr ypos \<Rightarrow>
             (case py_round avg_variable 2 of
                Inl e \<Rightarrow> Inl e
              | Inr r \<Rightarrow>
                  Inr (plt_tight_layout
                        (ax_grid ax ''y'' ''--''
                          (ax_set_xticklabels ax 45 ''right''
                            (ax_set_ylabel ax y
                              (ax_set_xlabel ax x
                                (ax_text ax (95 / 10) ypos [Lit ''Average: '', Val r]
                                   ''left'' ''baseline'' ''red'' st1))))))))"

text \<open>When the function raises, what it had drawn before stays on the axes; the model
  gives the exception only.\<close>

definition beautybar ::
  "string \<Rightarrow> string \<Rightarrow> frame \<Rightarrow> frame \<Rightarrow> string \<Rightarrow> nat option \<Rightarrow> pyplot \<Rightarrow> py_error + pyplot" where
  "beautybar x y data data_avg color ax st =
     (let (a, st0) = target_axes ax st
      in case sns_barplot x y data color a st0 of
           Inl e \<Rightarrow> Inl e
         | Inr st1 \<Rightarrow>
             (case column data y of
                None \<Rightarrow> Inl KeyError
              | Some ycol \<Rightarrow>
                  (case label_rows a 0 ycol st1 of
                     Inl e \<Rightarrow> Inl e
                   | Inr st2 \<Rightarrow>
                       (case column data_avg y of
                          None \<Rightarrow> Inl KeyError
                        | Some avg_col \<Rightarrow>
                            (case pd_mean avg_col of
                               Inl e \<Rightarrow> Inl e
                             | Inr avg_variable \<Rightarrow> finish_bars x y a avg_variable st2)))))"

section \<open>reg_scatter\<close>


section \<open>visualize_hyperparameter\<close>

definition visualize_hyperparameter :: "string \<Rightarrow> real list \<Rightarrow> real list \<Rightarrow> pyplot \<Rightarrow> py_error + pyplot" where
  "visualize_hyperparameter param_name param_values scores st =
     (case plt_scatter param_values scores ''o'' (plt_figure (10, 6) st) of
        Inl e \<Rightarrow> Inl e
      | Inr st1 \<Rightarrow>
          Inr (plt_show (plt_grid (plt_ylabel ''Mean Squared Error'' (plt_xlabel param_name
                 (plt_title (''Effect of '' @ param_name @ '' on Model Performance'') st1))))))"

section \<open>Observing the plotting state\<close>

text \<open>What a call has added to axes \<open>a\<close>: the artists the axes holds after the call beyond
  those it held before.\<close>

definition drawn_by :: "pyplot \<Rightarrow> pyplot \<Rightarrow> nat \<Rightarrow> artist list" where
  "drawn_by before after a =
     drop (length (artists (all_axes before ! a))) (artists (all_axes after ! a))"

text \<open>What a successful \<^verbatim>\<open>beautybar\<close> does to its axes: artists added, settings made.\<close>

definition bar_chart :: "string \<Rightarrow> string \<Rightarrow> artist list \<Rightarrow> axes \<Rightarrow> axes" where
  "bar_chart x y arts =
     (\<lambda>ax. ax\<lparr>artists := artists ax @ arts, xlabel := x, ylabel := y,
              xtick_style := Some (45, ''right''), grid := Some (''y'', ''--'')\<rparr>)"

text \<open>Axes \<open>a\<close> is what \<^verbatim>\<open>plt.gca()\<close> returns without creating anything.\<close>

definition is_current :: "pyplot \<Rightarrow> nat \<Rightarrow> bool" where
  "is_current s a =
     (active s \<noteq> [] \<and> axes_in s (last (active s)) \<noteq> [] \<and> a = last (axes_in s (last (active s))))"

text \<open>Every axes belongs to a figure that exists.\<close>

definition well_formed :: "pyplot \<Rightarrow> bool" where
  "well_formed st = list_all (\<lambda>ax. owner ax < length (figures st)) (all_axes st)"

section \<open>Example inputs\<close>

text \<open>The inputs at which the theorems below are instantiated.\<close>

definition given_moments :: moments where
  "given_moments =
     \<lparr>series_std = (\<lambda>cs. Inr (Num (158 / 100))),
      series_skew = (\<lambda>cs. Inr (Num 0)),
      series_kurtosis = (\<lambda>cs. Inr (Num (- 12 / 10)))\<rparr>"

definition with_missing :: "cell list" where
  "with_missing = [Num 1, Num 2, Num 3, Num 4, Num 5, NaN]"

definition heights :: series where
  "heights = \<lparr>name = Some ''height'', entries = [Num 1, Num 2, Num 3]\<rparr>"

definition weights :: series where
  "weights = \<lparr>name = Some ''weight'', entries = [Num 2, Num 4, Num 7]\<rparr>"

definition no_figures :: pyplot where
  "no_figures = \<lparr>figures = [], all_axes = [], active = []\<rparr>"

definition two_figures :: pyplot where
  "two_figures = \<lparr>figures = [new_figure default_figsize, new_figure default_figsize],
                   all_axes = [new_axes 0], active = [0, 1]\<rparr>"

definition sales :: frame where
  "sales = [(''region'', [Str ''north'', Str ''north'', Str ''south'']),
            (''revenue'', [Num 1, Num 3, Num 5])]"

definition sales_avg :: frame where
  "sales_avg = [(''revenue'', [Num 2, Num 6])]"


definition trials :: frame where
  "trials = [(''depth'', [Num 1, Num 2, NaN, Num 4]),
             (''error'', [Num 5, Num 3, Num 2, Num 1])]"

definition sales_by_region :: frame where
  "sales_by_region = [(''region'', [Str ''north'', Str ''south'']), (''revenue'', [Num 2, Num 5])]"

text \<open>The axes \<^verbatim>\<open>beautybar\<close> leaves for the frame \<open>sales\<close>.\<close>

definition sales_chart :: axes where
  "sales_chart =
     \<lparr>owner = 0,
      artists =
        [Bar 0 (Num 2) ''skyblue'',
         Bar 1 (Num 5) ''skyblue'',
         Text 0 (Num (12 / 10)) [Val (Num 1)] ''center'' ''bottom'' ''black'',
         Text 1 (Num (32 / 10)) [Val (Num 3)] ''center'' ''bottom'' ''black'',
         Text 2 (Num (52 / 10)) [Val (Num 5)] ''center'' ''bottom'' ''black'',
         HLine (Num 4) ''r'' ''--'',
         Text (95 / 10) (Num (42 / 10)) [Lit ''Average: '', Val (Num 4)]
           ''left'' ''baseline'' ''red''],
      ax_title = [], xlabel = ''region'', ylabel = ''revenue'',
      xtick_style = Some (45, ''right''), grid = Some (''y'', ''--'')\<rparr>"

section \<open>Console output: auxiliary facts\<close>

lemma print_all_ok: "print_all steps = (ls, None) \<Longrightarrow> steps = map Inr ls"
proof (induction steps arbitrary: ls)
  case Nil
  then show ?case by simp
next
  case (Cons s steps)
  show ?case
  proof (cases s)
    case (Inl e)
    with Cons.prems show ?thesis by simp
  next
    case (Inr l)
    with Cons.prems have "ls = l # fst (print_all steps)" "snd (print_all steps) = None"
      by auto
    with Cons.IH [of "fst (print_all steps)"] Inr show ?thesis
      by (metis list.simps(9) prod.collapse)
  qed
qed

lemma stat_line_simps:
  "stat_line l (Inr (Num v)) = Inr [Lit l, Val (Num (round_real v 2))]"
  "stat_line l (Inr NaN) = Inr [Lit l, Val NaN]"
  "stat_line l (Inr (Str s)) = Inl TypeError"
  "stat_line l (Inl e) = Inl e"
  by (simp_all add: stat_line_def)

lemma stat_line_percentile_nan:
  assumes "list_ex is_NaN variable" "stat_line label (np_percentile variable q) = Inr l"
  shows "l = [Lit label, Val NaN]"
  using assms by (auto simp: stat_line_def np_percentile_def split: if_splits)

section \<open>The plotting state: auxiliary facts\<close>

lemma on_axes_comp: "on_axes a f (on_axes a g st) = on_axes a (\<lambda>ax. f (g ax)) st"
  by (cases "a < length (all_axes st)") (simp_all add: on_axes_def list_update_beyond)

lemma on_axes_frame [simp]:
  "figures (on_axes a f st) = figures st"
  "active (on_axes a f st) = active st"
  "length (all_axes (on_axes a f st)) = length (all_axes st)"
  by (simp_all add: on_axes_def)

lemma on_axes_nth:
  "a < length (all_axes st) \<Longrightarrow> all_axes (on_axes a f st) ! a = f (all_axes st ! a)"
  by (simp add: on_axes_def)

lemma gcf_cases:
  "plt_gcf st = (f, st0) \<Longrightarrow>
     (active st = [] \<and> f = length (figures st) \<and> st0 = plt_figure default_figsize st)
     \<or> (active st \<noteq> [] \<and> f = last (active st) \<and> st0 = st)"
  by (auto simp: plt_gcf_def split: if_splits)

lemma gcf_on_axes: "plt_gcf (on_axes a g st) = (fst (plt_gcf st), on_axes a g (snd (plt_gcf st)))"
  by (simp add: plt_gcf_def plt_figure_def on_axes_def)

lemma gcf_active:
  "plt_gcf st = (f, s) \<Longrightarrow> active s \<noteq> [] \<and> last (active s) = f"
  by (auto simp: plt_gcf_def plt_figure_def split: if_splits)

lemma tight_layout_figures:
  "plt_gcf st = (f, st0) \<Longrightarrow>
   figures (plt_tight_layout (on_axes a g st)) =
     (figures st0)[f := (figures st0 ! f)\<lparr>layout_fits := Suc (layout_fits (figures st0 ! f))\<rparr>]"
  by (simp add: plt_tight_layout_def gcf_on_axes)

lemma tight_layout_active:
  "plt_gcf st = (f, st0) \<Longrightarrow> active (plt_tight_layout (on_axes a g st)) = active st0"
  by (simp add: plt_tight_layout_def gcf_on_axes)

lemma tight_layout_axes: "all_axes (plt_tight_layout st) = all_axes st"
  by (simp add: plt_tight_layout_def plt_gcf_def plt_figure_def)

lemma axes_in_append:
  "axes_in (s\<lparr>all_axes := all_axes s @ [ax]\<rparr>) f =
     axes_in s f @ (if owner ax = f then [length (all_axes s)] else [])"
proof -
  have "filter (\<lambda>i. owner ((all_axes s @ [ax]) ! i) = f) [0..<length (all_axes s)] =
        filter (\<lambda>i. owner (all_axes s ! i) = f) [0..<length (all_axes s)]"
    by (rule filter_cong) (simp_all add: nth_append)
  then show ?thesis by (simp add: axes_in_def)
qed

lemma axes_in_on_axes:
  assumes "\<And>ax. owner (g ax) = owner ax"
  shows "axes_in (on_axes a g s) f = axes_in s f"
proof -
  have "owner ((all_axes s)[a := g (all_axes s ! a)] ! i) = owner (all_axes s ! i)"
    if "i < length (all_axes s)" for i
    using that assms by (cases "i = a") simp_all
  then have "filter (\<lambda>i. owner ((all_axes s)[a := g (all_axes s ! a)] ! i) = f) [0..<length (all_axes s)] =
        filter (\<lambda>i. owner (all_axes s ! i) = f) [0..<length (all_axes s)]"
    by (intro filter_cong) simp_all
  then show ?thesis by (simp add: axes_in_def on_axes_def)
qed

lemma gca_is_current:
  assumes "plt_gca st = (a, s)"
  shows "is_current s a"
proof -
  obtain f s0 where g: "plt_gcf st = (f, s0)" by (cases "plt_gcf st")
  note act = gcf_active [OF g]
  show ?thesis
  proof (cases "axes_in s0 f = []")
    case True
    with assms g have s: "s = s0\<lparr>all_axes := all_axes s0 @ [new_axes f]\<rparr>" "a = length (all_axes s0)"
      by (simp_all add: plt_gca_def)
    show ?thesis unfolding s is_current_def using act True
      by (simp add: axes_in_append new_axes_def)
  next
    case False
    with assms g have "s = s0" "a = last (axes_in s0 f)"
      by (auto simp: plt_gca_def)
    with act False show ?thesis by (simp add: is_current_def)
  qed
qed

lemma is_current_gca: "is_current s a \<Longrightarrow> plt_gca s = (a, s)"
  by (simp add: is_current_def plt_gca_def plt_gcf_def)

lemma is_current_on_axes:
  assumes "is_current s a" "\<And>ax. owner (g ax) = owner ax"
  shows "is_current (on_axes b g s) a"
  using assms(1) by (simp add: is_current_def axes_in_on_axes [OF assms(2)])



lemma gca_keeps_figures:
  assumes "plt_gca st = (a, s)" "plt_gcf st = (f, st0)"
  shows "plt_gcf s = (f, s) \<and> figures s = figures st0 \<and> active s = active st0"
proof -
  from assms have "s = st0 \<or> s = st0\<lparr>all_axes := all_axes st0 @ [new_axes f]\<rparr>"
    by (auto simp: plt_gca_def split: if_splits)
  with gcf_active [OF assms(2)] show ?thesis
    by (auto simp: plt_gcf_def)
qed

lemma target_keeps_figures:
  assumes "target_axes ax st = (a, s)" "plt_gcf st = (f, st0)"
  shows "\<exists>s0. plt_gcf s = (f, s0) \<and> figures s0 = figures st0 \<and> active s0 = active st0"
proof (cases ax)
  case None
  with assms(1) have "plt_gca st = (a, s)" by (simp add: target_axes_def)
  from gca_keeps_figures [OF this assms(2)] show ?thesis by blast
next
  case (Some b)
  with assms show ?thesis by (auto simp: target_axes_def)
qed



lemma plt_on_current:
  assumes "is_current s a"
  shows "plt_title t s = ax_set_title a t s"
    and "plt_xlabel t s = ax_set_xlabel a t s"
    and "plt_ylabel t s = ax_set_ylabel a t s"
    and "plt_grid s = ax_grid a ''both'' ''-'' s"
  using is_current_gca [OF assms]
  by (simp_all add: plt_title_def plt_xlabel_def plt_ylabel_def plt_grid_def)

lemma is_current_setters:
  assumes "is_current s a"
  shows "is_current (ax_set_title b t s) a"
    and "is_current (ax_set_xlabel b t s) a"
    and "is_current (ax_set_ylabel b t s) a"
    and "is_current (add_artists b arts s) a"
  unfolding ax_set_title_def ax_set_xlabel_def ax_set_ylabel_def add_artists_def
  by (rule is_current_on_axes [OF assms], simp)+

lemma gca_after_figure:
  assumes "well_formed st"
  shows "plt_gca (plt_figure sz st) =
           (length (all_axes st),
            (plt_figure sz st)\<lparr>all_axes := all_axes st @ [new_axes (length (figures st))]\<rparr>)"
proof -
  have "filter (\<lambda>i. owner (all_axes st ! i) = length (figures st)) [0..<length (all_axes st)] = []"
    using assms by (auto simp: well_formed_def list_all_length filter_empty_conv)
  then show ?thesis
    by (simp add: plt_gca_def plt_gcf_def plt_figure_def axes_in_def)
qed

lemma plt_chain:
  assumes "is_current s a"
  shows "plt_grid (plt_ylabel yl (plt_xlabel xl (plt_title t s))) =
           ax_grid a ''both'' ''-'' (ax_set_ylabel a yl (ax_set_xlabel a xl (ax_set_title a t s)))"
proof -
  have c2: "is_current (ax_set_title a t s) a" by (rule is_current_setters(1) [OF assms])
  have c3: "is_current (ax_set_xlabel a xl (ax_set_title a t s)) a"
    by (rule is_current_setters(2) [OF c2])
  have c4: "is_current (ax_set_ylabel a yl (ax_set_xlabel a xl (ax_set_title a t s))) a"
    by (rule is_current_setters(3) [OF c3])
  show ?thesis
    by (simp only: plt_on_current(1) [OF assms] plt_on_current(2) [OF c2]
        plt_on_current(3) [OF c3] plt_on_current(4) [OF c4])
qed

section \<open>beautybar: what a successful call has done\<close>

lemma label_rows_adds:
  "label_rows a i ycol st = Inr st' \<Longrightarrow>
     \<exists>labels. st' = add_artists a labels st \<and> list_all is_Text labels \<and> length labels = length ycol"
proof (induction ycol arbitrary: i st)
  case Nil
  then have "st' = add_artists a [] st"
    by (cases "a < length (all_axes st)") (simp_all add: add_artists_def on_axes_def list_update_beyond)
  then show ?case by auto
next
  case (Cons v rest)
  from Cons.prems obtain ypos r where
    yr: "py_add v (2 / 10) = Inr ypos" "py_round v 2 = Inr r"
    and rec: "label_rows a (Suc i) rest
                (ax_text a (real i) ypos [Val r] ''center'' ''bottom'' ''black'' st) = Inr st'"
    by (auto split: sum.splits)
  from Cons.IH [OF rec] obtain labels where
    l: "st' = add_artists a labels (ax_text a (real i) ypos [Val r] ''center'' ''bottom'' ''black'' st)"
       "list_all is_Text labels" "length labels = length rest"
    by blast
  let ?t = "Text (real i) ypos [Val r] ''center'' ''bottom'' ''black''"
  have "st' = add_artists a (?t # labels) st"
    using l(1) by (simp add: ax_text_def add_artists_def on_axes_comp)
  moreover have "list_all is_Text (?t # labels)" using l(2) by simp
  moreover have "length (?t # labels) = length (v # rest)" using l(3) by simp
  ultimately show ?case by blast
qed

lemma beautybar_success:
  assumes "beautybar x y data data_avg color ax st = Inr st'"
    and "target_axes ax st = (a, st0)"
  shows "\<exists>xcol ycol avg_col avg ypos r labels.
           column data x = Some xcol \<and> column data y = Some ycol \<and>
           column data_avg y = Some avg_col \<and> pd_mean avg_col = Inr avg \<and>
           py_add avg (2 / 10) = Inr ypos \<and> py_round avg 2 = Inr r \<and>
           list_all is_Text labels \<and> length labels = length ycol \<and>
           st' = plt_tight_layout (on_axes a (bar_chart x y
                   (bars_of xcol ycol color @ labels @
                     [HLine avg ''r'' ''--'',
                      Text (95 / 10) ypos [Lit ''Average: '', Val r] ''left'' ''baseline'' ''red''])) st0)"
proof -
  from assms obtain st1 ycol st2 avg_col avg where
    bp: "sns_barplot x y data color a st0 = Inr st1"
    and yc: "column data y = Some ycol"
    and lr: "label_rows a 0 ycol st1 = Inr st2"
    and ac: "column data_avg y = Some avg_col"
    and av: "pd_mean avg_col = Inr avg"
    and fin: "finish_bars x y a avg st2 = Inr st'"
    by (auto simp: beautybar_def split: sum.splits option.splits)
  from bp yc obtain xcol where xc: "column data x = Some xcol"
    and st1: "st1 = ax_set_ylabel a y (ax_set_xlabel a x (add_artists a (bars_of xcol ycol color) st0))"
    by (auto simp: sns_barplot_def split: option.splits if_splits)
  from label_rows_adds [OF lr] obtain labels where
    lab: "st2 = add_artists a labels st1" "list_all is_Text labels" "length labels = length ycol"
    by blast
  from fin obtain ypos r where yr: "py_add avg (2 / 10) = Inr ypos" "py_round avg 2 = Inr r"
    and st': "st' = plt_tight_layout
                        (ax_grid a ''y'' ''--''
                          (ax_set_xticklabels a 45 ''right''
                            (ax_set_ylabel a y
                              (ax_set_xlabel a x
                                (ax_text a (95 / 10) ypos [Lit ''Average: '', Val r]
                                   ''left'' ''baseline'' ''red'' (ax_axhline a avg ''r'' ''--'' st2))))))"
    by (auto simp: finish_bars_def Let_def split: sum.splits)
  have "st' = plt_tight_layout (on_axes a (bar_chart x y
                   (bars_of xcol ycol color @ labels @
                     [HLine avg ''r'' ''--'',
                      Text (95 / 10) ypos [Lit ''Average: '', Val r] ''left'' ''baseline'' ''red''])) st0)"
    unfolding st' lab(1) st1
    by (simp add: ax_grid_def ax_set_xticklabels_def ax_set_ylabel_def ax_set_xlabel_def ax_text_def
        ax_axhline_def add_artists_def on_axes_comp bar_chart_def)
  with xc yc ac av yr lab(2,3) show ?thesis by blast
qed

lemma beautybar_drawn:
  assumes "beautybar x y data data_avg color ax st = Inr st'"
    and "target_axes ax st = (a, st0)"
    and "a < length (all_axes st0)"
  shows "\<exists>xcol ycol avg_col avg ypos r labels.
           column data x = Some xcol \<and> column data y = Some ycol \<and>
           column data_avg y = Some avg_col \<and> pd_mean avg_col = Inr avg \<and>
           py_add avg (2 / 10) = Inr ypos \<and> py_round avg 2 = Inr r \<and>
           list_all is_Text labels \<and> length labels = length ycol \<and>
           drawn_by st0 st' a =
             bars_of xcol ycol color @ labels @
               [HLine avg ''r'' ''--'',
                Text (95 / 10) ypos [Lit ''Average: '', Val r] ''left'' ''baseline'' ''red'']"
proof -
  from beautybar_success [OF assms(1,2)] obtain xcol ycol avg_col avg ypos r labels where
    f: "column data x = Some xcol" "column data y = Some ycol"
       "column data_avg y = Some avg_col" "pd_mean avg_col = Inr avg"
       "py_add avg (2 / 10) = Inr ypos" "py_round avg 2 = Inr r"
       "list_all is_Text labels" "length labels = length ycol"
    and st': "st' = plt_tight_layout (on_axes a (bar_chart x y
                   (bars_of xcol ycol color @ labels @
                     [HLine avg ''r'' ''--'',
                      Text (95 / 10) ypos [Lit ''Average: '', Val r] ''left'' ''baseline'' ''red''])) st0)"
    by blast
  have "drawn_by st0 st' a = bars_of xcol ycol color @ labels @
                     [HLine avg ''r'' ''--'',
                      Text (95 / 10) ypos [Lit ''Average: '', Val r] ''left'' ''baseline'' ''red'']"
    unfolding st' drawn_by_def using assms(3)
    by (simp add: tight_layout_axes on_axes_nth bar_chart_def)
  with f show ?thesis by blast
qed

section \<open>The functions at the example inputs\<close>

lemmas plot_evals = beautybar_def target_axes_def plt_gca_def plt_gcf_def plt_figure_def axes_in_def
  new_figure_def new_axes_def default_figsize_def sns_barplot_def column_def bars_of_def
  categorical_order_def category_mean_def mean_of_def add_artists_def on_axes_def
  ax_set_xlabel_def ax_set_ylabel_def ax_text_def ax_axhline_def ax_set_xticklabels_def ax_grid_def
  finish_bars_def plt_tight_layout_def pd_mean_def skipna_stat_def round_real_def round_half_even_def
  no_figures_def two_figures_def sales_def sales_avg_def sales_by_region_def trials_def Let_def

lemma beautybar_sales:
  "beautybar ''region'' ''revenue'' sales sales_avg ''skyblue'' None no_figures =
     Inr \<lparr>figures = [\<lparr>figsize = (64 / 10, 48 / 10), layout_fits = 1, shown = False\<rparr>],
          all_axes = [sales_chart], active = [0]\<rparr>"
  by (simp add: plot_evals sales_chart_def)

lemma beautybar_sales_by_region:
  "beautybar ''region'' ''revenue'' sales_by_region sales_avg ''orange'' None no_figures =
     Inr \<lparr>figures = [\<lparr>figsize = (64 / 10, 48 / 10), layout_fits = 1, shown = False\<rparr>],
          all_axes =
            [\<lparr>owner = 0,
              artists =
                [Bar 0 (Num 2) ''orange'',
                 Bar 1 (Num 5) ''orange'',
                 Text 0 (Num (22 / 10)) [Val (Num 2)] ''center'' ''bottom'' ''black'',
                 Text 1 (Num (52 / 10)) [Val (Num 5)] ''center'' ''bottom'' ''black'',
                 HLine (Num 4) ''r'' ''--'',
                 Text (95 / 10) (Num (42 / 10)) [Lit ''Average: '', Val (Num 4)]
                   ''left'' ''baseline'' ''red''],
              ax_title = [], xlabel = ''region'', ylabel = ''revenue'',
              xtick_style = Some (45, ''right''), grid = Some (''y'', ''--'')\<rparr>],
          active = [0]\<rparr>"
  by (simp add: plot_evals)

lemma beautybar_two_figures:
  "beautybar ''region'' ''revenue'' sales sales_avg ''skyblue'' (Some 0) two_figures =
     Inr \<lparr>figures = [\<lparr>figsize = (64 / 10, 48 / 10), layout_fits = 0, shown = False\<rparr>,
                     \<lparr>figsize = (64 / 10, 48 / 10), layout_fits = 1, shown = False\<rparr>],
          all_axes = [sales_chart], active = [0, 1]\<rparr>"
  by (simp add: plot_evals sales_chart_def)

lemma gca_no_figures:
  "target_axes None no_figures =
     (0, \<lparr>figures = [new_figure default_figsize], all_axes = [new_axes 0], active = [0]\<rparr>)"
  by (simp add: target_axes_def plt_gca_def plt_gcf_def plt_figure_def axes_in_def no_figures_def
      new_axes_def)


section \<open>print_statistic: missing entries and the percentiles\<close>

lemmas stat_evals = print_statistic_def pd_mean_def pd_median_def pd_min_def pd_max_def
  skipna_stat_def mean_of_def median_of_def np_percentile_def linear_percentile_def isnull_sum_def
  round_real_def round_half_even_def stat_line_simps

text \<open>
  Whenever the variable holds a missing entry and the report completes, both percentile
  lines read NaN: \<^verbatim>\<open>np.percentile\<close> receives the whole Series, missing entries included.
\<close>

lemma print_statistic_percentile_of_missing:
  assumes "list_ex is_NaN variable"
    and "print_statistic lib title variable = (ls, None)"
  shows "ls ! 7 = [Lit ''25th Percentile (Q1): '', Val NaN]
       \<and> ls ! 8 = [Lit ''75th Percentile (Q3): '', Val NaN]"
proof -
  from assms(2) have eq: "[Inr [Lit (''Statistics for '' @ title @ '':'')],
      Inr banner,
      stat_line ''Mean: '' (pd_mean variable),
      stat_line ''Median: '' (pd_median variable),
      stat_line ''Standard Deviation: '' (series_std lib variable),
      stat_line ''Minimum: '' (pd_min variable),
      stat_line ''Maximum: '' (pd_max variable),
      stat_line ''25th Percentile (Q1): '' (np_percentile variable 25),
      stat_line ''75th Percentile (Q3): '' (np_percentile variable 75),
      stat_line ''Skewness: '' (series_skew lib variable),
      stat_line ''Kurtosis: '' (series_kurtosis lib variable),
      Inr [Lit ''Count of Missing Values: '', Cnt (isnull_sum variable)],
      Inr banner,
      Inr []] = map Inr ls"
    unfolding print_statistic_def by (rule print_all_ok)
  then obtain l0 l1 l2 l3 l4 l5 l6 l7 l8 rest where
    ls: "ls = l0 # l1 # l2 # l3 # l4 # l5 # l6 # l7 # l8 # rest"
    and q1: "stat_line ''25th Percentile (Q1): '' (np_percentile variable 25) = Inr l7"
    and q3: "stat_line ''75th Percentile (Q3): '' (np_percentile variable 75) = Inr l8"
    by (auto simp: map_eq_Cons_conv)
  from stat_line_percentile_nan [OF assms(1) q1] stat_line_percentile_nan [OF assms(1) q3] ls
  show ?thesis by simp
qed

text \<open>The lemma at the Series 1, 2, 3, 4, 5, NaN.\<close>

lemma print_statistic_percentile_of_missing_witness:
  "list_ex is_NaN with_missing
   \<and> (\<exists>ls. print_statistic given_moments ''v'' with_missing = (ls, None)
          \<and> ls ! 7 = [Lit ''25th Percentile (Q1): '', Val NaN]
          \<and> ls ! 8 = [Lit ''75th Percentile (Q3): '', Val NaN])"
proof -
  have n: "list_ex is_NaN with_missing" by (simp add: with_missing_def)
  obtain ls where r: "print_statistic given_moments ''v'' with_missing = (ls, None)"
    by (simp add: stat_evals given_moments_def with_missing_def)
  from print_statistic_percentile_of_missing [OF n r] n r show ?thesis by blast
qed

text \<open>
  C1. The claim: for an input with missing entries, \<^verbatim>\<open>print_statistic\<close> computes the 25th
  and 75th percentile over the non-missing values only, as it does for the mean, the
  median, the minimum and the maximum. The code does not: for the Series 1, 2, 3, 4, 5,
  NaN the report gives mean 3, median 3, minimum 1 and maximum 5, computed without the
  missing entry, and NaN for both percentiles. Over the five non-missing values the
  linear-interpolation percentiles, which the claim asks for, are 2 and 4.
\<close>

theorem print_statistic_missing_entry_report:
  "print_statistic given_moments ''v'' with_missing =
     ([[Lit ''Statistics for v:''], banner,
       [Lit ''Mean: '', Val (Num 3)],
       [Lit ''Median: '', Val (Num 3)],
       [Lit ''Standard Deviation: '', Val (Num (158 / 100))],
       [Lit ''Minimum: '', Val (Num 1)],
       [Lit ''Maximum: '', Val (Num 5)],
       [Lit ''25th Percentile (Q1): '', Val NaN],
       [Lit ''75th Percentile (Q3): '', Val NaN],
       [Lit ''Skewness: '', Val (Num 0)],
       [Lit ''Kurtosis: '', Val (Num (- 12 / 10))],
       [Lit ''Count of Missing Values: '', Cnt 1],
       banner, []], None)
   \<and> np_percentile (map Num (dropna with_missing)) 25 = Inr (Num 2)
   \<and> np_percentile (map Num (dropna with_missing)) 75 = Inr (Num 4)"
  by (simp add: stat_evals given_moments_def with_missing_def)

section \<open>print_statistic: exceptions\<close>

text \<open>
  C7. For every input that is not numeric, and for the empty input, \<^verbatim>\<open>print_statistic\<close>
  ends with the exception an underlying statistics call raised, unchanged. An entry that
  is not a number makes \<^verbatim>\<open>variable.mean()\<close> raise TypeError: the function ends with
  that TypeError after the two header lines. On the empty Series the pandas statistics
  give NaN and \<^verbatim>\<open>np.percentile\<close> raises IndexError: the function ends with that
  IndexError after the line of the maximum, unless the standard deviation (a parameter
  here) raised before, and then it ends with that exception. Nothing is caught or
  translated: the exception returned is the one the call returned.
\<close>

theorem print_statistic_propagates_errors:
  "(list_ex is_Str variable \<longrightarrow>
      pd_mean variable = Inl TypeError \<and>
      print_statistic lib title variable =
        ([[Lit (''Statistics for '' @ title @ '':'')], banner], Some TypeError))
   \<and> (variable = [] \<longrightarrow>
      np_percentile variable 25 = Inl IndexError \<and>
      (case stat_line ''Standard Deviation: '' (series_std lib variable) of
         Inl e \<Rightarrow>
           print_statistic lib title variable =
             ([[Lit (''Statistics for '' @ title @ '':'')], banner,
               [Lit ''Mean: '', Val NaN], [Lit ''Median: '', Val NaN]], Some e)
       | Inr l \<Rightarrow>
           print_statistic lib title variable =
             ([[Lit (''Statistics for '' @ title @ '':'')], banner,
               [Lit ''Mean: '', Val NaN], [Lit ''Median: '', Val NaN], l,
               [Lit ''Minimum: '', Val NaN], [Lit ''Maximum: '', Val NaN]], Some IndexError)))"
proof (intro conjI impI)
  assume s: "list_ex is_Str variable"
  then show "pd_mean variable = Inl TypeError"
    by (simp add: pd_mean_def skipna_stat_def)
  then show "print_statistic lib title variable =
        ([[Lit (''Statistics for '' @ title @ '':'')], banner], Some TypeError)"
    by (simp add: print_statistic_def stat_line_simps)
next
  assume e: "variable = []"
  then show "np_percentile variable 25 = Inl IndexError"
    by (simp add: np_percentile_def)
  show "case stat_line ''Standard Deviation: '' (series_std lib variable) of
         Inl e \<Rightarrow>
           print_statistic lib title variable =
             ([[Lit (''Statistics for '' @ title @ '':'')], banner,
               [Lit ''Mean: '', Val NaN], [Lit ''Median: '', Val NaN]], Some e)
       | Inr l \<Rightarrow>
           print_statistic lib title variable =
             ([[Lit (''Statistics for '' @ title @ '':'')], banner,
               [Lit ''Mean: '', Val NaN], [Lit ''Median: '', Val NaN], l,
               [Lit ''Minimum: '', Val NaN], [Lit ''Maximum: '', Val NaN]], Some IndexError)"
    unfolding e
    by (cases "stat_line ''Standard Deviation: '' (series_std lib [])")
       (simp_all add: print_statistic_def pd_mean_def pd_median_def pd_min_def pd_max_def
          skipna_stat_def np_percentile_def stat_line_simps)
qed

text \<open>The theorem at a Series with an entry that is not a number, and at the empty
  Series.\<close>

theorem print_statistic_propagates_errors_witness:
  "print_statistic given_moments ''v'' [Num 1, Str ''n/a''] =
     ([[Lit ''Statistics for v:''], banner], Some TypeError)
   \<and> print_statistic given_moments ''v'' [] =
     ([[Lit ''Statistics for v:''], banner,
       [Lit ''Mean: '', Val NaN], [Lit ''Median: '', Val NaN],
       [Lit ''Standard Deviation: '', Val (Num (158 / 100))],
       [Lit ''Minimum: '', Val NaN], [Lit ''Maximum: '', Val NaN]], Some IndexError)"
  using print_statistic_propagates_errors [of "[Num 1, Str ''n/a'']" given_moments "''v''"]
    print_statistic_propagates_errors [of "[]" given_moments "''v''"]
  by (simp add: given_moments_def stat_line_simps round_real_def round_half_even_def)

section \<open>pearson_correlation: the verdict\<close>

text \<open>
  C3. Whenever \<^verbatim>\<open>pearsonr\<close> returns a coefficient and a p-value, \<^verbatim>\<open>pearson_correlation\<close>
  prints the coefficient, the p-value and one verdict: the "statistically significant"
  message exactly when the p-value is a number strictly below 0.05, the "no statistically
  significant correlation" message otherwise (at 0.05 exactly, above it, and for a NaN
  p-value). Both messages name the two Series.
\<close>

theorem pearson_correlation_verdict:
  assumes "pearsonr (entries x) (entries y) = Inr (r, p)"
    and "\<not> is_Str p"
  shows "pearson_correlation pearsonr x y =
           ([[Lit ''Pearson Correlation Coefficient: '', Val r],
             [Lit ''P-value: '', Val p],
             if (case p of Num v \<Rightarrow> v < 5 / 100 | _ \<Rightarrow> False)
             then significant_msg x y else not_significant_msg x y], None)"
  using assms by (cases p) (simp_all add: pearson_correlation_def)

text \<open>The theorem at p-values 0.01, 0.05 and NaN.\<close>

theorem pearson_correlation_verdict_witness:
  "pearson_correlation (\<lambda>xs ys. Inr (Num (9 / 10), Num (1 / 100))) heights weights =
     ([[Lit ''Pearson Correlation Coefficient: '', Val (Num (9 / 10))],
       [Lit ''P-value: '', Val (Num (1 / 100))],
       [Lit ''There is a statistically significant correlation between height and weight.'']], None)
   \<and> pearson_correlation (\<lambda>xs ys. Inr (Num (9 / 10), Num (5 / 100))) heights weights =
     ([[Lit ''Pearson Correlation Coefficient: '', Val (Num (9 / 10))],
       [Lit ''P-value: '', Val (Num (5 / 100))],
       [Lit ''There is no statistically significant correlation between height and weight.'']], None)
   \<and> pearson_correlation (\<lambda>xs ys. Inr (NaN, NaN)) heights weights =
     ([[Lit ''Pearson Correlation Coefficient: '', Val NaN],
       [Lit ''P-value: '', Val NaN],
       [Lit ''There is no statistically significant correlation between height and weight.'']], None)"
  using pearson_correlation_verdict [of "\<lambda>xs ys. Inr (Num (9 / 10), Num (1 / 100))" heights weights "Num (9 / 10)" "Num (1 / 100)"]
    pearson_correlation_verdict [of "\<lambda>xs ys. Inr (Num (9 / 10), Num (5 / 100))" heights weights "Num (9 / 10)" "Num (5 / 100)"]
    pearson_correlation_verdict [of "\<lambda>xs ys. Inr (NaN, NaN)" heights weights NaN NaN]
  by (simp add: significant_msg_def not_significant_msg_def fmt_name_def heights_def weights_def)

section \<open>beautybar: the labels of the bars\<close>

text \<open>
  C2. The claim: every bar receives a centred label directly above it that shows the
  bar's height, the aggregated value of its category. The code labels the rows of
  \<^verbatim>\<open>data[y]\<close>, not the bars. For the frame \<open>sales\<close>, whose region north has the two
  rows 1 and 3, two bars are drawn, of heights 2 and 5 at positions 0 and 1, and three
  labels: 1 at position 0, 3 at position 1 and 5 at position 2. The bar of height 2 is
  labelled 1, the bar of height 5 is labelled 3, and the third label stands where no bar
  is. (The fourth text is the annotation of the average.)
\<close>

theorem beautybar_labels_rows_not_bars:
  "\<exists>st'. beautybar ''region'' ''revenue'' sales sales_avg ''skyblue'' None no_figures = Inr st'
     \<and> filter is_Bar (artists (all_axes st' ! 0)) =
         [Bar 0 (Num 2) ''skyblue'', Bar 1 (Num 5) ''skyblue'']
     \<and> filter is_Text (artists (all_axes st' ! 0)) =
         [Text 0 (Num (12 / 10)) [Val (Num 1)] ''center'' ''bottom'' ''black'',
          Text 1 (Num (32 / 10)) [Val (Num 3)] ''center'' ''bottom'' ''black'',
          Text 2 (Num (52 / 10)) [Val (Num 5)] ''center'' ''bottom'' ''black'',
          Text (95 / 10) (Num (42 / 10)) [Lit ''Average: '', Val (Num 4)]
            ''left'' ''baseline'' ''red'']"
  by (simp add: beautybar_sales sales_chart_def)

section \<open>beautybar: the reference line\<close>

text \<open>
  C4. Whenever \<^verbatim>\<open>beautybar\<close> succeeds, exactly one horizontal line is among the artists it
  adds to its axes: red, dashed, at the height \<^verbatim>\<open>data_avg[y].mean()\<close>. A second call with
  another \<open>data\<close> frame (and another colour) and the same \<open>data_avg\<close> draws the line at
  the same height: the height does not depend on \<open>data\<close>.
\<close>

theorem beautybar_reference_line:
  assumes "beautybar x y data data_avg color ax st = Inr st'"
    and "target_axes ax st = (a, st0)"
    and "a < length (all_axes st0)"
    and "beautybar x y data2 data_avg color2 ax st = Inr st2'"
  shows "\<exists>avg_col avg. column data_avg y = Some avg_col \<and> pd_mean avg_col = Inr avg \<and>
           filter is_HLine (drawn_by st0 st' a) = [HLine avg ''r'' ''--''] \<and>
           filter is_HLine (drawn_by st0 st2' a) = [HLine avg ''r'' ''--'']"
proof -
  have hl: "filter is_HLine (bars_of xcol ycol c @ labels @ [HLine avg ''r'' ''--'', t]) = [HLine avg ''r'' ''--'']"
    if "list_all is_Text labels" "is_Text t" for xcol ycol c labels avg t
  proof -
    have "filter is_HLine (bars_of xcol ycol c) = []"
      by (simp add: bars_of_def Let_def filter_map comp_def)
    moreover have "filter is_HLine labels = []"
      using that(1) by (induction labels) (auto simp: artist.disc_eq_case split: artist.splits)
    moreover have "\<not> is_HLine t"
      using that(2) by (auto simp: artist.disc_eq_case split: artist.splits)
    ultimately show ?thesis by simp
  qed
  from beautybar_drawn [OF assms(1,2,3)] obtain xcol ycol avg_col avg ypos r labels where
    ac: "column data_avg y = Some avg_col" "pd_mean avg_col = Inr avg"
    and lab: "list_all is_Text labels"
    and d: "drawn_by st0 st' a = bars_of xcol ycol color @ labels @
               [HLine avg ''r'' ''--'',
                Text (95 / 10) ypos [Lit ''Average: '', Val r] ''left'' ''baseline'' ''red'']"
    by blast
  from beautybar_drawn [OF assms(4,2,3)] ac obtain xcol2 ycol2 ypos2 r2 labels2 where
    lab2: "list_all is_Text labels2"
    and d2: "drawn_by st0 st2' a = bars_of xcol2 ycol2 color2 @ labels2 @
               [HLine avg ''r'' ''--'',
                Text (95 / 10) ypos2 [Lit ''Average: '', Val r2] ''left'' ''baseline'' ''red'']"
    by auto
  have "filter is_HLine (drawn_by st0 st' a) = [HLine avg ''r'' ''--'']"
    unfolding d by (rule hl [OF lab]) simp
  moreover have "filter is_HLine (drawn_by st0 st2' a) = [HLine avg ''r'' ''--'']"
    unfolding d2 by (rule hl [OF lab2]) simp
  ultimately show ?thesis using ac by blast
qed

text \<open>The theorem at the frames \<open>sales\<close> and \<open>sales_by_region\<close>, whose bars differ, with
  the averages 2 and 6: both lines are at height 4.\<close>

theorem beautybar_reference_line_witness:
  "\<exists>st' st2' st0.
     beautybar ''region'' ''revenue'' sales sales_avg ''skyblue'' None no_figures = Inr st'
     \<and> beautybar ''region'' ''revenue'' sales_by_region sales_avg ''orange'' None no_figures = Inr st2'
     \<and> target_axes None no_figures = (0, st0)
     \<and> column sales_avg ''revenue'' = Some [Num 2, Num 6]
     \<and> pd_mean [Num 2, Num 6] = Inr (Num 4)
     \<and> filter is_HLine (drawn_by st0 st' 0) = [HLine (Num 4) ''r'' ''--'']
     \<and> filter is_HLine (drawn_by st0 st2' 0) = [HLine (Num 4) ''r'' ''--'']"
proof -
  have v: "0 < length (all_axes \<lparr>figures = [new_figure default_figsize], all_axes = [new_axes 0], active = [0]\<rparr>)"
    by simp
  have c: "column sales_avg ''revenue'' = Some [Num 2, Num 6]"
    by (simp add: column_def sales_avg_def)
  have m: "pd_mean [Num 2, Num 6] = Inr (Num 4)"
    by (simp add: pd_mean_def skipna_stat_def mean_of_def)
  from beautybar_reference_line [OF beautybar_sales gca_no_figures v beautybar_sales_by_region] c m
  show ?thesis
    using beautybar_sales beautybar_sales_by_region gca_no_figures by auto
qed

section \<open>beautybar: the annotation of the average\<close>

text \<open>
  C9. Whenever \<^verbatim>\<open>beautybar\<close> succeeds, the last two artists it adds are the reference line
  at the average and the red text "Average: " followed by the average rounded to two
  decimals, at the horizontal coordinate 9.5 and at the height of the average plus 0.2.
  The coordinate 9.5 is the same for every \<open>data\<close>, however many bars are drawn.
\<close>

theorem beautybar_average_label:
  assumes "beautybar x y data data_avg color ax st = Inr st'"
    and "target_axes ax st = (a, st0)"
    and "a < length (all_axes st0)"
  shows "\<exists>avg_col avg ypos r others.
           column data_avg y = Some avg_col \<and> pd_mean avg_col = Inr avg \<and>
           py_add avg (2 / 10) = Inr ypos \<and> py_round avg 2 = Inr r \<and>
           drawn_by st0 st' a =
             others @
               [HLine avg ''r'' ''--'',
                Text (95 / 10) ypos [Lit ''Average: '', Val r] ''left'' ''baseline'' ''red'']"
  using beautybar_drawn [OF assms] by (metis append.assoc)

text \<open>The theorem at a chart of two bars: the annotation is at 9.5.\<close>

theorem beautybar_average_label_witness:
  "\<exists>st' st0 others.
     beautybar ''region'' ''revenue'' sales_by_region sales_avg ''orange'' None no_figures = Inr st'
     \<and> target_axes None no_figures = (0, st0)
     \<and> length (filter is_Bar (drawn_by st0 st' 0)) = 2
     \<and> drawn_by st0 st' 0 =
          others @
            [HLine (Num 4) ''r'' ''--'',
             Text (95 / 10) (Num (42 / 10)) [Lit ''Average: '', Val (Num 4)]
               ''left'' ''baseline'' ''red'']"
proof -
  have v: "0 < length (all_axes \<lparr>figures = [new_figure default_figsize], all_axes = [new_axes 0], active = [0]\<rparr>)"
    by simp
  from beautybar_average_label [OF beautybar_sales_by_region gca_no_figures v]
  obtain avg_col avg ypos r others where
    f: "column sales_avg ''revenue'' = Some avg_col" "pd_mean avg_col = Inr avg"
       "py_add avg (2 / 10) = Inr ypos" "py_round avg 2 = Inr r"
    by blast
  let ?st' = "\<lparr>figures = [\<lparr>figsize = (64 / 10, 48 / 10), layout_fits = 1, shown = False\<rparr>],
          all_axes =
            [\<lparr>owner = 0,
              artists =
                [Bar 0 (Num 2) ''orange'',
                 Bar 1 (Num 5) ''orange'',
                 Text 0 (Num (22 / 10)) [Val (Num 2)] ''center'' ''bottom'' ''black'',
                 Text 1 (Num (52 / 10)) [Val (Num 5)] ''center'' ''bottom'' ''black'',
                 HLine (Num 4) ''r'' ''--'',
                 Text (95 / 10) (Num (42 / 10)) [Lit ''Average: '', Val (Num 4)]
                   ''left'' ''baseline'' ''red''],
              ax_title = [], xlabel = ''region'', ylabel = ''revenue'',
              xtick_style = Some (45, ''right''), grid = Some (''y'', ''--'')\<rparr>],
          active = [0]\<rparr>"
  let ?st0 = "\<lparr>figures = [new_figure default_figsize], all_axes = [new_axes 0], active = [0]\<rparr>"
  have d: "drawn_by ?st0 ?st' 0 =
      [Bar 0 (Num 2) ''orange'', Bar 1 (Num 5) ''orange'',
       Text 0 (Num (22 / 10)) [Val (Num 2)] ''center'' ''bottom'' ''black'',
       Text 1 (Num (52 / 10)) [Val (Num 5)] ''center'' ''bottom'' ''black''] @
      [HLine (Num 4) ''r'' ''--'',
       Text (95 / 10) (Num (42 / 10)) [Lit ''Average: '', Val (Num 4)] ''left'' ''baseline'' ''red'']"
    by (simp add: drawn_by_def new_axes_def)
  have "length (filter is_Bar (drawn_by ?st0 ?st' 0)) = 2"
    unfolding d by simp
  with d f beautybar_sales_by_region gca_no_figures show ?thesis by blast
qed

section \<open>beautybar: the layout pass\<close>

text \<open>
  C10. For every successful call of \<^verbatim>\<open>beautybar\<close>, with an axes supplied or without, the
  layout pass has run on pyplot's current figure \<open>f\<close> (the one \<^verbatim>\<open>plt.gcf()\<close> gives, created
  and registered when pyplot manages none) and on no other figure, whichever figure owns
  the supplied axes: the figures after the call are those of \<^verbatim>\<open>plt.gcf()\<close> with one more
  layout pass on \<open>f\<close>, so every other figure is as before.
\<close>

theorem beautybar_layout_on_current_figure:
  assumes "beautybar x y data data_avg color ax st = Inr st'"
    and "plt_gcf st = (f, st0)"
  shows "figures st' =
           (figures st0)[f := (figures st0 ! f)\<lparr>layout_fits := Suc (layout_fits (figures st0 ! f))\<rparr>]
       \<and> active st' = active st0
       \<and> (\<forall>g. g \<noteq> f \<and> g < length (figures st) \<longrightarrow> figures st' ! g = figures st ! g)"
proof -
  obtain a s where t: "target_axes ax st = (a, s)" by (cases "target_axes ax st")
  from beautybar_success [OF assms(1) t] obtain arts where
    st': "st' = plt_tight_layout (on_axes a (bar_chart x y arts) s)"
    by blast
  from target_keeps_figures [OF t assms(2)] obtain s0 where
    g: "plt_gcf s = (f, s0)" and fs: "figures s0 = figures st0" "active s0 = active st0"
    by blast
  have 1: "figures st' =
           (figures st0)[f := (figures st0 ! f)\<lparr>layout_fits := Suc (layout_fits (figures st0 ! f))\<rparr>]"
    unfolding st' using tight_layout_figures [OF g] fs by simp
  have 2: "active st' = active st0"
    unfolding st' using tight_layout_active [OF g] fs by simp
  have 3: "figures st' ! g = figures st ! g" if "g \<noteq> f" "g < length (figures st)" for g
    using gcf_cases [OF assms(2)] that unfolding 1
    by (auto simp: plt_figure_def nth_append)
  from 1 2 3 show ?thesis by blast
qed

text \<open>The theorem at two figures, the supplied axes on figure 0 and figure 1 current:
  the layout pass runs on figure 1. And with no axes supplied and no figure open: the
  figure \<^verbatim>\<open>plt.gcf()\<close> creates receives the layout pass.\<close>

theorem beautybar_layout_on_current_figure_witness:
  "(\<exists>st'. beautybar ''region'' ''revenue'' sales sales_avg ''skyblue'' (Some 0) two_figures = Inr st'
     \<and> owner (all_axes two_figures ! 0) = 0
     \<and> plt_gcf two_figures = (1, two_figures)
     \<and> layout_fits (figures two_figures ! 0) = 0 \<and> layout_fits (figures st' ! 0) = 0
     \<and> layout_fits (figures two_figures ! 1) = 0 \<and> layout_fits (figures st' ! 1) = 1)
   \<and> (\<exists>st'. beautybar ''region'' ''revenue'' sales sales_avg ''skyblue'' None no_figures = Inr st'
     \<and> plt_gcf no_figures = (0, plt_figure default_figsize no_figures)
     \<and> figures no_figures = []
     \<and> figures st' = [\<lparr>figsize = default_figsize, layout_fits = 1, shown = False\<rparr>]
     \<and> active no_figures = [] \<and> active st' = [0])"
proof -
  have g: "plt_gcf two_figures = (1, two_figures)"
    by (simp add: plt_gcf_def two_figures_def)
  have g0: "plt_gcf no_figures = (0, plt_figure default_figsize no_figures)"
    by (simp add: plt_gcf_def no_figures_def)
  from beautybar_layout_on_current_figure [OF beautybar_two_figures g]
    beautybar_layout_on_current_figure [OF beautybar_sales g0]
  show ?thesis
    using beautybar_two_figures beautybar_sales g g0
    by (simp add: two_figures_def no_figures_def new_figure_def new_axes_def plt_figure_def
        default_figsize_def)
qed

section \<open>reg_scatter: the layers\<close>




section \<open>visualize_hyperparameter: the points\<close>

text \<open>
  C6. For \<open>n\<close> parameter values and \<open>n\<close> scores, \<^verbatim>\<open>visualize_hyperparameter\<close> succeeds and
  leaves a new figure of size 10 by 6 with one new axes, which holds one scatter of the
  \<open>n\<close> points \<open>(param_values[i], scores[i])\<close> in input order, is titled "Effect of
  <param_name> on Model Performance", and has the x label \<open>param_name\<close> and the y label
  "Mean Squared Error". The axes that existed before are unchanged. (In the state before
  the call every axes belongs to an existing figure.)
\<close>

theorem visualize_hyperparameter_points:
  assumes "length param_values = length scores"
    and "well_formed st"
  shows "\<exists>st'. visualize_hyperparameter param_name param_values scores st = Inr st'
           \<and> all_axes st' = all_axes st @
                 [\<lparr>owner = length (figures st),
                   artists = [Scatter (zip param_values scores) ''o''],
                   ax_title = ''Effect of '' @ param_name @ '' on Model Performance'',
                   xlabel = param_name, ylabel = ''Mean Squared Error'',
                   xtick_style = None, grid = Some (''both'', ''-'')\<rparr>]
           \<and> length (figures st') = Suc (length (figures st))
           \<and> figsize (figures st' ! length (figures st)) = (10, 6)
           \<and> active st' = active st @ [length (figures st)]
           \<and> length (zip param_values scores) = length param_values
           \<and> (\<forall>i<length param_values. zip param_values scores ! i = (param_values ! i, scores ! i))"
proof -
  let ?n = "length (figures st)" and ?m = "length (all_axes st)"
  let ?sb = "(plt_figure (10, 6) st)\<lparr>all_axes := all_axes st @ [new_axes ?n]\<rparr>"
  let ?s1 = "add_artists ?m [Scatter (zip param_values scores) ''o''] ?sb"
  let ?t = "''Effect of '' @ param_name @ '' on Model Performance''"
  have gca: "plt_gca (plt_figure (10, 6) st) = (?m, ?sb)"
    by (rule gca_after_figure [OF assms(2)])
  then have sc: "plt_scatter param_values scores ''o'' (plt_figure (10, 6) st) = Inr ?s1"
    using assms(1) by (simp add: plt_scatter_def)
  have c0: "is_current ?sb ?m" by (rule gca_is_current [OF gca])
  have c1: "is_current ?s1 ?m" by (rule is_current_setters(4) [OF c0])
  let ?final = "plt_show (ax_grid ?m ''both'' ''-'' (ax_set_ylabel ?m ''Mean Squared Error''
              (ax_set_xlabel ?m param_name (ax_set_title ?m ?t ?s1))))"
  have run: "visualize_hyperparameter param_name param_values scores st = Inr ?final"
    by (simp only: visualize_hyperparameter_def sc sum.case plt_chain [OF c1])
  have axs: "all_axes ?final = all_axes st @
                 [\<lparr>owner = ?n,
                   artists = [Scatter (zip param_values scores) ''o''],
                   ax_title = ?t,
                   xlabel = param_name, ylabel = ''Mean Squared Error'',
                   xtick_style = None, grid = Some (''both'', ''-'')\<rparr>]"
    by (simp add: plt_show_def ax_grid_def ax_set_ylabel_def ax_set_xlabel_def ax_set_title_def
        add_artists_def on_axes_def plt_figure_def new_axes_def)
  have figs: "length (figures ?final) = Suc ?n"
    by (simp add: plt_show_def ax_grid_def ax_set_ylabel_def ax_set_xlabel_def ax_set_title_def
        add_artists_def plt_figure_def)
  have sz: "figsize (figures ?final ! ?n) = (10, 6)"
    by (simp add: plt_show_def ax_grid_def ax_set_ylabel_def ax_set_xlabel_def ax_set_title_def
        add_artists_def plt_figure_def new_figure_def nth_append del: upt_Suc)
  have act: "active ?final = active st @ [?n]"
    by (simp add: plt_show_def ax_grid_def ax_set_ylabel_def ax_set_xlabel_def ax_set_title_def
        add_artists_def plt_figure_def)
  have pts: "length (zip param_values scores) = length param_values"
    "\<forall>i<length param_values. zip param_values scores ! i = (param_values ! i, scores ! i)"
    using assms(1) by simp_all
  from run axs figs sz act pts show ?thesis by blast
qed

text \<open>The theorem at three points, with two figures open before the call.\<close>

theorem visualize_hyperparameter_points_witness:
  "\<exists>st'. visualize_hyperparameter ''alpha'' [1 / 10, 1, 10] [3, 2, 4] two_figures = Inr st'
     \<and> all_axes st' =
         [new_axes 0,
          \<lparr>owner = 2,
            artists = [Scatter [(1 / 10, 3), (1, 2), (10, 4)] ''o''],
            ax_title = ''Effect of alpha on Model Performance'',
            xlabel = ''alpha'', ylabel = ''Mean Squared Error'',
            xtick_style = None, grid = Some (''both'', ''-'')\<rparr>]
     \<and> length (figures st') = 3
     \<and> figsize (figures st' ! 2) = (10, 6)
     \<and> active st' = [0, 1, 2]"
proof -
  have l: "length [1 / 10, 1, 10 :: real] = length [3, 2, 4 :: real]" by simp
  have w: "well_formed two_figures"
    by (simp add: well_formed_def two_figures_def new_axes_def)
  from visualize_hyperparameter_points [OF l w, of "''alpha''"]
  show ?thesis by (auto simp: two_figures_def numeral_2_eq_2)
qed

end
